theory Spec2Isabelle
  imports Main
begin

section \<open>Python values used by \<open>PlaylistManager\<close>\<close>

text \<open>
  A Python \<open>str\<close> is a sequence of Unicode code points; a code point is a natural
  number here, so that \<open>str.strip()\<close> sees the same characters as in Python. String
  literals of the source are written as Isabelle literals and converted by \<open>lit\<close>.
\<close>

type_synonym pystr = "nat list"

definition lit :: "string \<Rightarrow> pystr" where
  "lit s = map of_char s"

text \<open>
  The arguments of the methods are untyped in Python. \<open>PyStr\<close> is a \<open>str\<close>, \<open>PyNone\<close> is
  \<open>None\<close> (the default of \<open>artist\<close> and \<open>genre\<close> in \<open>update_song\<close>), and \<open>PyOther\<close> stands
  for a value of any other type, for which \<open>isinstance(x, str)\<close> is false.
\<close>

datatype pyval = PyStr pystr | PyNone | PyOther

text \<open>
  The three exception classes the methods raise and catch; \<open>str_exn\<close> is \<open>str(e)\<close>, the
  message the exception was built with.
\<close>

datatype exn = TypeError pystr | ValueError pystr | PlaylistError pystr

fun str_exn :: "exn \<Rightarrow> pystr" where
  "str_exn (TypeError m) = m"
| "str_exn (ValueError m) = m"
| "str_exn (PlaylistError m) = m"

subsection \<open>\<open>str.strip()\<close>\<close>

text \<open>
  \<open>str.strip()\<close> without argument removes the leading and the trailing characters for
  which \<open>str.isspace()\<close> holds: the ASCII controls 9 to 13 and 28 to 31, the space, and
  the Unicode white space above ASCII.
\<close>

definition is_space :: "nat \<Rightarrow> bool" where
  "is_space c \<longleftrightarrow>
     (9 \<le> c \<and> c \<le> 13) \<or> (28 \<le> c \<and> c \<le> 32) \<or> c = 0x85 \<or> c = 0xA0 \<or> c = 0x1680 \<or>
     (0x2000 \<le> c \<and> c \<le> 0x200A) \<or> c = 0x2028 \<or> c = 0x2029 \<or> c = 0x202F \<or>
     c = 0x205F \<or> c = 0x3000"

definition lstrip :: "pystr \<Rightarrow> pystr" where
  "lstrip s = dropWhile is_space s"

definition rstrip :: "pystr \<Rightarrow> pystr" where
  "rstrip s = rev (dropWhile is_space (rev s))"

definition strip :: "pystr \<Rightarrow> pystr" where
  "strip s = rstrip (lstrip s)"

section \<open>The playlist dictionary\<close>

text \<open>
  \<open>self.playlist\<close> is a \<open>dict\<close> from the title to an inner \<open>dict\<close> with the two keys
  \<open>"artist"\<close> and \<open>"genre"\<close>. A Python \<open>dict\<close> enumerates its items in insertion order, so
  the playlist is an association list in that order, and the inner dictionary is a record.
\<close>

record song =
  artist :: pystr
  genre :: pystr

type_synonym playlist = "(pystr \<times> song) list"

text \<open>\<open>title in self.playlist\<close>\<close>

definition contains :: "pystr \<Rightarrow> playlist \<Rightarrow> bool" where
  "contains k d \<longleftrightarrow> k \<in> set (map fst d)"

text \<open>
  \<open>self.playlist[k] = v\<close>: an existing key keeps its place and gets the new value, a new
  key goes to the end.
\<close>

fun setitem :: "pystr \<Rightarrow> song \<Rightarrow> playlist \<Rightarrow> playlist" where
  "setitem k v [] = [(k, v)]"
| "setitem k v ((k', v') # d) = (if k' = k then (k, v) # d else (k', v') # setitem k v d)"

text \<open>
  \<open>self.playlist[k]["artist"] = a\<close> and \<open>self.playlist[k]["genre"] = g\<close>: the inner
  dictionary found under \<open>k\<close> is changed in place. Both are reached only after the check
  that \<open>k\<close> is a key; for a missing key the list is returned as it is.
\<close>

fun set_artist :: "pystr \<Rightarrow> pystr \<Rightarrow> playlist \<Rightarrow> playlist" where
  "set_artist k a [] = []"
| "set_artist k a ((k', v') # d) =
     (if k' = k then (k', v'\<lparr>artist := a\<rparr>) # d else (k', v') # set_artist k a d)"

fun set_genre :: "pystr \<Rightarrow> pystr \<Rightarrow> playlist \<Rightarrow> playlist" where
  "set_genre k g [] = []"
| "set_genre k g ((k', v') # d) =
     (if k' = k then (k', v'\<lparr>genre := g\<rparr>) # d else (k', v') # set_genre k g d)"

text \<open>
  \<open>del self.playlist[k]\<close>, reached only after the check that \<open>k\<close> is a key: the entry is
  taken out and the others keep their order.
\<close>

fun delitem :: "pystr \<Rightarrow> playlist \<Rightarrow> playlist" where
  "delitem k [] = []"
| "delitem k ((k', v') # d) = (if k' = k then d else (k', v') # delitem k d)"

text \<open>\<open>self.playlist[k]\<close> as a lookup, used to state what a record holds.\<close>

definition getitem :: "playlist \<Rightarrow> pystr \<Rightarrow> song option" where
  "getitem d k = map_of d k"

section \<open>The methods of \<open>PlaylistManager\<close>\<close>

text \<open>
  Every method is a \<open>try\<close> block whose handler returns \<open>str(e)\<close>. The block is modelled
  by a \<open>_try\<close> function returning the raised exception (\<open>Inl\<close>) or the returned message
  (\<open>Inr\<close>) together with the playlist as the block left it; the method itself maps the
  exception to its message. An argument as the caller passed it carries the suffix \<open>0\<close>,
  its stripped value the suffix \<open>1\<close> (the source reuses the name).
\<close>

text \<open>
  An Isabelle literal cannot end with an apostrophe, so the one that closes the prefix
  \<open>Song '\<close> of the messages is written as its code point.
\<close>

definition apostrophe :: pystr where
  "apostrophe = [39]"

definition init :: playlist where
  "init = []"

fun handler :: "(exn + pystr) \<times> playlist \<Rightarrow> pystr \<times> playlist" where
  "handler (Inl e, d) = (str_exn e, d)"
| "handler (Inr m, d) = (m, d)"

subsection \<open>\<open>add_song\<close>\<close>

fun add_song_try :: "playlist \<Rightarrow> pyval \<Rightarrow> pyval \<Rightarrow> pyval \<Rightarrow> (exn + pystr) \<times> playlist" where
  "add_song_try d (PyStr title0) (PyStr artist0) (PyStr genre0) =
     (let title1 = strip title0; artist1 = strip artist0; genre1 = strip genre0 in
      if title1 = [] \<or> artist1 = [] \<or> genre1 = [] then
        (Inl (ValueError (lit ''Title, artist, and genre cannot be empty'')), d)
      else if contains title1 d then
        (Inl (PlaylistError (lit ''Song '' @ apostrophe @ title1 @ lit ''' already exists!'')), d)
      else
        (Inr (lit ''Song '' @ apostrophe @ title1 @ lit ''' added successfully!''),
         setitem title1 \<lparr>artist = artist1, genre = genre1\<rparr> d))"
| "add_song_try d title0 artist0 genre0 =
     (Inl (TypeError (lit ''Title, artist, and genre must be strings'')), d)"

definition add_song :: "playlist \<Rightarrow> pyval \<Rightarrow> pyval \<Rightarrow> pyval \<Rightarrow> pystr \<times> playlist" where
  "add_song d title0 artist0 genre0 = handler (add_song_try d title0 artist0 genre0)"

subsection \<open>\<open>view_playlist\<close>\<close>

text \<open>The three lines one iteration of the loop appends to \<open>playlist_view\<close>.\<close>

definition block :: "pystr \<times> song \<Rightarrow> pystr" where
  "block e =
     lit ''Title: '' @ fst e @ lit ''\<newline>'' @
     lit ''Artist: '' @ artist (snd e) @ lit ''\<newline>'' @
     lit ''Genre: '' @ genre (snd e) @ lit ''\<newline>\<newline>''"

text \<open>The loop over \<open>self.playlist.items()\<close>, with \<open>playlist_view\<close> as the accumulator.\<close>

fun view_loop :: "playlist \<Rightarrow> pystr \<Rightarrow> pystr" where
  "view_loop [] playlist_view = playlist_view"
| "view_loop (e # d) playlist_view = view_loop d (playlist_view @ block e)"

definition view_playlist_try :: "playlist \<Rightarrow> (exn + pystr) \<times> playlist" where
  "view_playlist_try d =
     (if d = [] then (Inl (PlaylistError (lit ''Playlist is empty'')), d)
      else (Inr (view_loop d []), d))"

definition view_playlist :: "playlist \<Rightarrow> pystr \<times> playlist" where
  "view_playlist d = handler (view_playlist_try d)"

subsection \<open>\<open>update_song\<close>\<close>

text \<open>
  The two optional fields are handled one after the other, each on the playlist the
  statements before it left: a \<open>TypeError\<close> for the genre is raised after the artist has
  been written.
\<close>

fun update_artist :: "pystr \<Rightarrow> pyval \<Rightarrow> playlist \<Rightarrow> exn + playlist" where
  "update_artist title1 PyNone d = Inr d"
| "update_artist title1 PyOther d = Inl (TypeError (lit ''Artist must be a string''))"
| "update_artist title1 (PyStr artist0) d =
     (let artist1 = strip artist0 in
      if artist1 \<noteq> [] then Inr (set_artist title1 artist1 d) else Inr d)"

fun update_genre :: "pystr \<Rightarrow> pyval \<Rightarrow> playlist \<Rightarrow> exn + playlist" where
  "update_genre title1 PyNone d = Inr d"
| "update_genre title1 PyOther d = Inl (TypeError (lit ''Genre must be a string''))"
| "update_genre title1 (PyStr genre0) d =
     (let genre1 = strip genre0 in
      if genre1 \<noteq> [] then Inr (set_genre title1 genre1 d) else Inr d)"

fun update_song_try :: "playlist \<Rightarrow> pyval \<Rightarrow> pyval \<Rightarrow> pyval \<Rightarrow> (exn + pystr) \<times> playlist" where
  "update_song_try d (PyStr title0) artist0 genre0 =
     (let title1 = strip title0 in
      if \<not> contains title1 d then
        (Inl (PlaylistError
               (lit ''Song '' @ apostrophe @ title1 @ lit ''' not found in playlist!'')), d)
      else
        (case update_artist title1 artist0 d of
           Inl e \<Rightarrow> (Inl e, d)
         | Inr d1 \<Rightarrow>
             (case update_genre title1 genre0 d1 of
                Inl e \<Rightarrow> (Inl e, d1)
              | Inr d2 \<Rightarrow>
                  (Inr (lit ''Song '' @ apostrophe @ title1 @ lit ''' updated successfully!''),
                   d2))))"
| "update_song_try d title0 artist0 genre0 =
     (Inl (TypeError (lit ''Title must be a string'')), d)"

definition update_song :: "playlist \<Rightarrow> pyval \<Rightarrow> pyval \<Rightarrow> pyval \<Rightarrow> pystr \<times> playlist" where
  "update_song d title0 artist0 genre0 = handler (update_song_try d title0 artist0 genre0)"

subsection \<open>\<open>delete_song\<close>\<close>

fun delete_song_try :: "playlist \<Rightarrow> pyval \<Rightarrow> (exn + pystr) \<times> playlist" where
  "delete_song_try d (PyStr title0) =
     (let title1 = strip title0 in
      if \<not> contains title1 d then
        (Inl (PlaylistError
               (lit ''Song '' @ apostrophe @ title1 @ lit ''' not found in playlist!'')), d)
      else
        (Inr (lit ''Song '' @ apostrophe @ title1 @ lit ''' deleted successfully!''),
         delitem title1 d))"
| "delete_song_try d title0 = (Inl (TypeError (lit ''Title must be a string'')), d)"

definition delete_song :: "playlist \<Rightarrow> pyval \<Rightarrow> pystr \<times> playlist" where
  "delete_song d title0 = handler (delete_song_try d title0)"

section \<open>Calls on string inputs and the states they reach\<close>

text \<open>
  A caller that passes strings only: \<open>add_song\<close> with three strings, \<open>view_playlist\<close>,
  \<open>update_song\<close> with a string title and each of artist and genre either a string or
  left out (\<open>None\<close>), and \<open>delete_song\<close> with a string. \<open>call_on\<close> is the playlist after
  the call, \<open>run\<close> the playlist after a sequence of calls on the empty one.
\<close>

datatype call =
  Add pystr pystr pystr
| View
| Update pystr "pystr option" "pystr option"
| Delete pystr

fun opt_arg :: "pystr option \<Rightarrow> pyval" where
  "opt_arg None = PyNone"
| "opt_arg (Some s) = PyStr s"

fun call_on :: "playlist \<Rightarrow> call \<Rightarrow> playlist" where
  "call_on d (Add title0 artist0 genre0) =
     snd (add_song d (PyStr title0) (PyStr artist0) (PyStr genre0))"
| "call_on d View = snd (view_playlist d)"
| "call_on d (Update title0 artist0 genre0) =
     snd (update_song d (PyStr title0) (opt_arg artist0) (opt_arg genre0))"
| "call_on d (Delete title0) = snd (delete_song d (PyStr title0))"

definition run :: "call list \<Rightarrow> playlist" where
  "run cs = foldl call_on init cs"

text \<open>
  The invariant of the data model: the titles are pairwise different, every title is its
  own stripped form and is not empty, and the artist and the genre of every record are
  not empty after stripping.
\<close>

definition record_ok :: "pystr \<times> song \<Rightarrow> bool" where
  "record_ok e \<longleftrightarrow>
     strip (fst e) = fst e \<and> strip (fst e) \<noteq> [] \<and>
     strip (artist (snd e)) \<noteq> [] \<and> strip (genre (snd e)) \<noteq> []"

definition invariant :: "playlist \<Rightarrow> bool" where
  "invariant d \<longleftrightarrow> distinct (map fst d) \<and> list_all record_ok d"

section \<open>Facts about \<open>strip\<close> and the dictionary operations\<close>

lemma dropWhile_snoc_keep: "\<not> P x \<Longrightarrow> dropWhile P (xs @ [x]) = dropWhile P xs @ [x]"
  by (induction xs) auto

lemma dropWhile_rev_head:
  assumes "u = [] \<or> \<not> P (hd u)"
  shows "dropWhile P (rev (dropWhile P (rev u))) = rev (dropWhile P (rev u))"
proof (cases u)
  case Nil
  then show ?thesis by simp
next
  case (Cons x w)
  with assms have "\<not> P x" by simp
  then show ?thesis using Cons by (simp add: dropWhile_snoc_keep)
qed

lemma lstrip_head: "lstrip s = [] \<or> \<not> is_space (hd (lstrip s))"
  unfolding lstrip_def using hd_dropWhile[of is_space s] by blast

lemma lstrip_rstrip: "lstrip (rstrip (lstrip s)) = rstrip (lstrip s)"
proof -
  have "dropWhile is_space (rev (dropWhile is_space (rev (lstrip s)))) =
        rev (dropWhile is_space (rev (lstrip s)))"
    using lstrip_head[of s] by (rule dropWhile_rev_head)
  then show ?thesis by (simp add: rstrip_def lstrip_def)
qed

lemma rstrip_idem: "rstrip (rstrip s) = rstrip s"
  by (simp add: rstrip_def)

lemma strip_idem: "strip (strip s) = strip s"
  by (simp add: strip_def lstrip_rstrip rstrip_idem)

lemma keys_setitem:
  "map fst (setitem k v d) = (if k \<in> set (map fst d) then map fst d else map fst d @ [k])"
  by (induction d) (force simp: image_iff)+

lemma contains_setitem: "contains k (setitem k' v d) \<longleftrightarrow> k = k' \<or> contains k d"
  unfolding contains_def keys_setitem by auto

lemma setitem_new: "\<not> contains k d \<Longrightarrow> setitem k v d = d @ [(k, v)]"
  by (induction d) (auto simp: contains_def)

lemma keys_set_artist: "map fst (set_artist k a d) = map fst d"
  by (induction d) auto

lemma keys_set_genre: "map fst (set_genre k g d) = map fst d"
  by (induction d) auto

lemma keys_delitem: "map fst (delitem k d) = remove1 k (map fst d)"
  by (induction d) auto

lemma view_loop_concat: "view_loop d acc = acc @ concat (map block d)"
  by (induction d arbitrary: acc) auto

lemma getitem_append_new:
  "\<not> contains k d \<Longrightarrow> getitem (d @ [(k, v)]) k' = (if k' = k then Some v else getitem d k')"
  by (induction d) (auto simp: getitem_def contains_def)

subsection \<open>The invariant is kept by every call\<close>

lemma invariant_key_nonempty: "invariant d \<Longrightarrow> contains k d \<Longrightarrow> k \<noteq> []"
  by (auto simp: invariant_def contains_def list_all_iff record_ok_def)

lemma invariant_append:
  "invariant d \<Longrightarrow> \<not> contains k d \<Longrightarrow> record_ok (k, v) \<Longrightarrow> invariant (d @ [(k, v)])"
  by (auto simp: invariant_def contains_def)

lemma invariant_set_artist:
  "invariant d \<Longrightarrow> strip a \<noteq> [] \<Longrightarrow> invariant (set_artist k a d)"
  unfolding invariant_def keys_set_artist
  by (induction d) (auto simp: record_ok_def)

lemma invariant_set_genre:
  "invariant d \<Longrightarrow> strip g \<noteq> [] \<Longrightarrow> invariant (set_genre k g d)"
  unfolding invariant_def keys_set_genre
  by (induction d) (auto simp: record_ok_def)

lemma set_delitem: "set (delitem k d) \<subseteq> set d"
  by (induction d) (auto split: if_splits)

lemma invariant_delitem: "invariant d \<Longrightarrow> invariant (delitem k d)"
  unfolding invariant_def keys_delitem
  using set_delitem[of k d] by (auto simp: list_all_iff)

lemma invariant_add_song:
  "invariant d \<Longrightarrow> invariant (snd (add_song d (PyStr title0) (PyStr artist0) (PyStr genre0)))"
  by (simp add: add_song_def Let_def setitem_new invariant_append record_ok_def strip_idem)

lemma invariant_view_playlist: "invariant d \<Longrightarrow> invariant (snd (view_playlist d))"
  by (cases d) (simp_all add: view_playlist_def view_playlist_try_def)

lemma invariant_update_artist:
  "invariant d \<Longrightarrow> update_artist k (opt_arg a) d = Inr d1 \<Longrightarrow> invariant d1"
  by (cases a) (auto simp: Let_def invariant_set_artist strip_idem split: if_splits)

lemma invariant_update_genre:
  "invariant d \<Longrightarrow> update_genre k (opt_arg g) d = Inr d1 \<Longrightarrow> invariant d1"
  by (cases g) (auto simp: Let_def invariant_set_genre strip_idem split: if_splits)

lemma invariant_update_song:
  "invariant d \<Longrightarrow>
   invariant (snd (update_song d (PyStr title0) (opt_arg artist0) (opt_arg genre0)))"
  by (auto simp: update_song_def Let_def split: sum.splits
        dest: invariant_update_artist invariant_update_genre)

lemma invariant_delete_song: "invariant d \<Longrightarrow> invariant (snd (delete_song d (PyStr title0)))"
  by (simp add: delete_song_def Let_def invariant_delitem)

lemma invariant_call_on: "invariant d \<Longrightarrow> invariant (call_on d c)"
  by (cases c)
    (simp_all add: invariant_add_song invariant_view_playlist invariant_update_song
       invariant_delete_song)

lemma invariant_foldl: "invariant d \<Longrightarrow> invariant (foldl call_on d cs)"
  by (induction cs arbitrary: d) (simp_all add: invariant_call_on)

lemma invariant_run: "invariant (run cs)"
  unfolding run_def by (rule invariant_foldl) (simp add: invariant_def init_def)

text \<open>The definitions unfolded to evaluate a call on a concrete playlist.\<close>

lemmas ev = strip_def lstrip_def rstrip_def lit_def is_space_def contains_def apostrophe_def
  Let_def add_song_def view_playlist_def view_playlist_try_def update_song_def delete_song_def
  init_def run_def invariant_def record_ok_def getitem_def block_def

section \<open>Properties of \<open>add_song\<close>\<close>

text \<open>
  C1: when the three arguments are strings that are not empty after stripping and the
  stripped title is not a key, \<open>add_song\<close> returns the message
  \<open>Song '<title>' added successfully!\<close> with the stripped title, and the playlist is the
  old one followed by the one new entry, the stripped artist and genre under the stripped
  title: the length grows by one, the new title is found, every other key is looked up
  as before.
\<close>

theorem add_song_inserts:
  assumes "strip title0 \<noteq> []" and "strip artist0 \<noteq> []" and "strip genre0 \<noteq> []"
    and "\<not> contains (strip title0) d"
  shows "add_song_try d (PyStr title0) (PyStr artist0) (PyStr genre0) =
           (Inr (lit ''Song '' @ apostrophe @ strip title0 @ lit ''' added successfully!''),
            d @ [(strip title0, \<lparr>artist = strip artist0, genre = strip genre0\<rparr>)]) \<and>
         add_song d (PyStr title0) (PyStr artist0) (PyStr genre0) =
           (lit ''Song '' @ apostrophe @ strip title0 @ lit ''' added successfully!'',
            d @ [(strip title0, \<lparr>artist = strip artist0, genre = strip genre0\<rparr>)]) \<and>
         length (snd (add_song d (PyStr title0) (PyStr artist0) (PyStr genre0))) = length d + 1 \<and>
         getitem (snd (add_song d (PyStr title0) (PyStr artist0) (PyStr genre0))) (strip title0) =
           Some \<lparr>artist = strip artist0, genre = strip genre0\<rparr> \<and>
         (\<forall>k. k \<noteq> strip title0 \<longrightarrow>
            getitem (snd (add_song d (PyStr title0) (PyStr artist0) (PyStr genre0))) k =
            getitem d k)"
  using assms by (simp add: add_song_def Let_def setitem_new getitem_append_new)

theorem add_song_inserts_witness:
  "strip (lit '' A '') \<noteq> [] \<and> strip (lit '' X '') \<noteq> [] \<and> strip (lit ''Rock'') \<noteq> [] \<and>
   \<not> contains (strip (lit '' A '')) [(lit ''B'', \<lparr>artist = lit ''Y'', genre = lit ''Pop''\<rparr>)] \<and>
   add_song [(lit ''B'', \<lparr>artist = lit ''Y'', genre = lit ''Pop''\<rparr>)]
     (PyStr (lit '' A '')) (PyStr (lit '' X '')) (PyStr (lit ''Rock'')) =
     (lit ''Song 'A' added successfully!'',
      [(lit ''B'', \<lparr>artist = lit ''Y'', genre = lit ''Pop''\<rparr>),
       (lit ''A'', \<lparr>artist = lit ''X'', genre = lit ''Rock''\<rparr>)])"
proof -
  have h1: "strip (lit '' A '') \<noteq> []" by (simp add: ev)
  have h2: "strip (lit '' X '') \<noteq> []" by (simp add: ev)
  have h3: "strip (lit ''Rock'') \<noteq> []" by (simp add: ev)
  have h4: "\<not> contains (strip (lit '' A ''))
              [(lit ''B'', \<lparr>artist = lit ''Y'', genre = lit ''Pop''\<rparr>)]"
    by (simp add: ev)
  have e: "strip (lit '' A '') = lit ''A''" "strip (lit '' X '') = lit ''X''"
    "strip (lit ''Rock'') = lit ''Rock''"
    "lit ''Song '' @ apostrophe @ lit ''A'' @ lit ''' added successfully!'' =
     lit ''Song 'A' added successfully!''"
    by (simp_all add: ev)
  from add_song_inserts[OF h1 h2 h3 h4] h1 h2 h3 h4 show ?thesis
    by (simp add: e)
qed

text \<open>
  C4: when at least one of the three strings is empty after stripping, \<open>add_song\<close> raises
  the \<open>ValueError\<close>, returns its message and leaves the playlist as it was.
\<close>

theorem add_song_empty_field:
  assumes "strip title0 = [] \<or> strip artist0 = [] \<or> strip genre0 = []"
  shows "add_song_try d (PyStr title0) (PyStr artist0) (PyStr genre0) =
           (Inl (ValueError (lit ''Title, artist, and genre cannot be empty'')), d) \<and>
         add_song d (PyStr title0) (PyStr artist0) (PyStr genre0) =
           (lit ''Title, artist, and genre cannot be empty'', d)"
  using assms by (auto simp: add_song_def Let_def)

theorem add_song_empty_field_witness:
  "(strip (lit ''A'') = [] \<or> strip (lit ''  '') = [] \<or> strip (lit ''Rock'') = []) \<and>
   add_song [(lit ''B'', \<lparr>artist = lit ''Y'', genre = lit ''Pop''\<rparr>)]
     (PyStr (lit ''A'')) (PyStr (lit ''  '')) (PyStr (lit ''Rock'')) =
     (lit ''Title, artist, and genre cannot be empty'',
      [(lit ''B'', \<lparr>artist = lit ''Y'', genre = lit ''Pop''\<rparr>)])"
proof -
  have h: "strip (lit ''A'') = [] \<or> strip (lit ''  '') = [] \<or> strip (lit ''Rock'') = []"
    by (simp add: ev)
  from add_song_empty_field[OF h] h show ?thesis by blast
qed

text \<open>
  C3 as stated fails: the check for empty fields comes before the check for a duplicate,
  so a call with a title that is already a key and an artist that is empty after
  stripping returns the \<open>ValueError\<close> message, not \<open>Song 'A' already exists!\<close>.
\<close>

theorem add_song_duplicate_counterexample:
  "contains (strip (lit ''A'')) [(lit ''A'', \<lparr>artist = lit ''X'', genre = lit ''Rock''\<rparr>)] \<and>
   add_song [(lit ''A'', \<lparr>artist = lit ''X'', genre = lit ''Rock''\<rparr>)]
     (PyStr (lit ''A'')) (PyStr (lit '' '')) (PyStr (lit ''Pop'')) =
     (lit ''Title, artist, and genre cannot be empty'',
      [(lit ''A'', \<lparr>artist = lit ''X'', genre = lit ''Rock''\<rparr>)]) \<and>
   fst (add_song [(lit ''A'', \<lparr>artist = lit ''X'', genre = lit ''Rock''\<rparr>)]
     (PyStr (lit ''A'')) (PyStr (lit '' '')) (PyStr (lit ''Pop''))) \<noteq>
     lit ''Song '' @ apostrophe @ strip (lit ''A'') @ lit ''' already exists!''"
  by (simp add: ev)

text \<open>
  C3, amended: on a playlist that satisfies the invariant (every playlist the calls
  reach does), when the stripped title is already a key and the artist and the genre
  are both not empty after stripping, \<open>add_song\<close> raises the \<open>PlaylistError\<close>, returns
  \<open>Song '<title>' already exists!\<close> with the stripped title, whatever the artist and
  genre are otherwise, and leaves the playlist as it was.
\<close>

theorem add_song_duplicate:
  assumes "invariant d" and "contains (strip title0) d"
    and "strip artist0 \<noteq> []" and "strip genre0 \<noteq> []"
  shows "add_song_try d (PyStr title0) (PyStr artist0) (PyStr genre0) =
           (Inl (PlaylistError
                  (lit ''Song '' @ apostrophe @ strip title0 @ lit ''' already exists!'')), d) \<and>
         add_song d (PyStr title0) (PyStr artist0) (PyStr genre0) =
           (lit ''Song '' @ apostrophe @ strip title0 @ lit ''' already exists!'', d)"
  using assms invariant_key_nonempty[of d "strip title0"]
  by (simp add: add_song_def Let_def)

theorem add_song_duplicate_witness:
  "invariant [(lit ''A'', \<lparr>artist = lit ''X'', genre = lit ''Rock''\<rparr>)] \<and>
   contains (strip (lit '' A '')) [(lit ''A'', \<lparr>artist = lit ''X'', genre = lit ''Rock''\<rparr>)] \<and>
   strip (lit ''Y'') \<noteq> [] \<and> strip (lit ''Pop'') \<noteq> [] \<and>
   add_song [(lit ''A'', \<lparr>artist = lit ''X'', genre = lit ''Rock''\<rparr>)]
     (PyStr (lit '' A '')) (PyStr (lit ''Y'')) (PyStr (lit ''Pop'')) =
     (lit ''Song 'A' already exists!'',
      [(lit ''A'', \<lparr>artist = lit ''X'', genre = lit ''Rock''\<rparr>)])"
proof -
  have h1: "invariant [(lit ''A'', \<lparr>artist = lit ''X'', genre = lit ''Rock''\<rparr>)]"
    by (simp add: ev)
  have h2: "contains (strip (lit '' A ''))
              [(lit ''A'', \<lparr>artist = lit ''X'', genre = lit ''Rock''\<rparr>)]"
    by (simp add: ev)
  have h3: "strip (lit ''Y'') \<noteq> []" by (simp add: ev)
  have h4: "strip (lit ''Pop'') \<noteq> []" by (simp add: ev)
  have e: "lit ''Song '' @ apostrophe @ strip (lit '' A '') @ lit ''' already exists!'' =
           lit ''Song 'A' already exists!''"
    by (simp add: ev)
  from add_song_duplicate[OF h1 h2 h3 h4] h1 h2 h3 h4 show ?thesis
    by (simp add: e)
qed

section \<open>The invariant of the playlist\<close>

text \<open>
  C2: every playlist reached from the empty one by calls of the four methods on string
  arguments has pairwise different titles, and each of its records has a title that is
  its own stripped form and is not empty, and an artist and a genre that are not empty
  after stripping; and each of the four calls keeps the invariant.
\<close>

theorem invariant_reachable:
  "distinct (map fst (run cs)) \<and>
   (\<forall>e \<in> set (run cs).
      strip (fst e) = fst e \<and> strip (fst e) \<noteq> [] \<and>
      strip (artist (snd e)) \<noteq> [] \<and> strip (genre (snd e)) \<noteq> []) \<and>
   (invariant d \<longrightarrow>
      invariant (snd (add_song d (PyStr title0) (PyStr artist0) (PyStr genre0))) \<and>
      invariant (snd (view_playlist d)) \<and>
      invariant (snd (update_song d (PyStr title0) (opt_arg artist') (opt_arg genre'))) \<and>
      invariant (snd (delete_song d (PyStr title0))))"
proof -
  have "invariant (run cs)" by (rule invariant_run)
  then have a: "distinct (map fst (run cs))" and b: "\<forall>e \<in> set (run cs). record_ok e"
    by (simp_all add: invariant_def list_all_iff)
  from b have b': "\<forall>e \<in> set (run cs).
      strip (fst e) = fst e \<and> strip (fst e) \<noteq> [] \<and>
      strip (artist (snd e)) \<noteq> [] \<and> strip (genre (snd e)) \<noteq> []"
    unfolding record_ok_def .
  have c: "invariant d \<longrightarrow>
      invariant (snd (add_song d (PyStr title0) (PyStr artist0) (PyStr genre0))) \<and>
      invariant (snd (view_playlist d)) \<and>
      invariant (snd (update_song d (PyStr title0) (opt_arg artist') (opt_arg genre'))) \<and>
      invariant (snd (delete_song d (PyStr title0)))"
    by (simp add: invariant_add_song invariant_view_playlist invariant_update_song
          invariant_delete_song)
  show ?thesis by (intro conjI a b' c)
qed

theorem invariant_reachable_witness:
  "invariant [(lit ''B'', \<lparr>artist = lit ''Y'', genre = lit ''Folk''\<rparr>),
      (lit ''A'', \<lparr>artist = lit ''Z'', genre = lit ''Jazz''\<rparr>)] \<and>
   run [Add (lit '' A '') (lit ''X '') (lit ''Rock''), Add (lit ''B'') (lit ''Y'') (lit ''Pop''),
        Add (lit ''A'') (lit ''Z'') (lit ''Jazz''), View,
        Update (lit ''B'') None (Some (lit '' Folk'')), Delete (lit ''A ''),
        Add (lit ''A'') (lit ''Z'') (lit ''Jazz'')] =
     [(lit ''B'', \<lparr>artist = lit ''Y'', genre = lit ''Folk''\<rparr>),
      (lit ''A'', \<lparr>artist = lit ''Z'', genre = lit ''Jazz''\<rparr>)] \<and>
   distinct (map fst (run [Add (lit '' A '') (lit ''X '') (lit ''Rock''),
        Add (lit ''B'') (lit ''Y'') (lit ''Pop''),
        Add (lit ''A'') (lit ''Z'') (lit ''Jazz''), View,
        Update (lit ''B'') None (Some (lit '' Folk'')), Delete (lit ''A ''),
        Add (lit ''A'') (lit ''Z'') (lit ''Jazz'')])) \<and>
   invariant (snd (add_song [(lit ''B'', \<lparr>artist = lit ''Y'', genre = lit ''Folk''\<rparr>),
      (lit ''A'', \<lparr>artist = lit ''Z'', genre = lit ''Jazz''\<rparr>)]
      (PyStr (lit ''C '')) (PyStr (lit ''V'')) (PyStr (lit ''Soul'')))) \<and>
   invariant (snd (update_song [(lit ''B'', \<lparr>artist = lit ''Y'', genre = lit ''Folk''\<rparr>),
      (lit ''A'', \<lparr>artist = lit ''Z'', genre = lit ''Jazz''\<rparr>)]
      (PyStr (lit ''C '')) (opt_arg (Some (lit '' W ''))) (opt_arg (Some (lit '' ''))))) \<and>
   invariant (snd (delete_song [(lit ''B'', \<lparr>artist = lit ''Y'', genre = lit ''Folk''\<rparr>),
      (lit ''A'', \<lparr>artist = lit ''Z'', genre = lit ''Jazz''\<rparr>)] (PyStr (lit ''C ''))))"
proof -
  have r: "run [Add (lit '' A '') (lit ''X '') (lit ''Rock''), Add (lit ''B'') (lit ''Y'') (lit ''Pop''),
        Add (lit ''A'') (lit ''Z'') (lit ''Jazz''), View,
        Update (lit ''B'') None (Some (lit '' Folk'')), Delete (lit ''A ''),
        Add (lit ''A'') (lit ''Z'') (lit ''Jazz'')] =
     [(lit ''B'', \<lparr>artist = lit ''Y'', genre = lit ''Folk''\<rparr>),
      (lit ''A'', \<lparr>artist = lit ''Z'', genre = lit ''Jazz''\<rparr>)]"
    by (simp add: ev)
  have i: "invariant [(lit ''B'', \<lparr>artist = lit ''Y'', genre = lit ''Folk''\<rparr>),
      (lit ''A'', \<lparr>artist = lit ''Z'', genre = lit ''Jazz''\<rparr>)]"
    by (simp add: ev)
  from invariant_reachable[where cs = "[Add (lit '' A '') (lit ''X '') (lit ''Rock''),
        Add (lit ''B'') (lit ''Y'') (lit ''Pop''),
        Add (lit ''A'') (lit ''Z'') (lit ''Jazz''), View,
        Update (lit ''B'') None (Some (lit '' Folk'')), Delete (lit ''A ''),
        Add (lit ''A'') (lit ''Z'') (lit ''Jazz'')]"
      and d = "[(lit ''B'', \<lparr>artist = lit ''Y'', genre = lit ''Folk''\<rparr>),
      (lit ''A'', \<lparr>artist = lit ''Z'', genre = lit ''Jazz''\<rparr>)]"
      and ?title0.0 = "lit ''C ''" and ?artist0.0 = "lit ''V''" and ?genre0.0 = "lit ''Soul''"
      and artist' = "Some (lit '' W '')" and genre' = "Some (lit '' '')"] r i
  show ?thesis by blast
qed

section \<open>Properties of \<open>view_playlist\<close>\<close>

lemma view_playlist_nonempty:
  "d \<noteq> [] \<Longrightarrow> view_playlist d = (concat (map block d), d)"
  by (simp add: view_playlist_def view_playlist_try_def view_loop_concat)

text \<open>
  C5: on the empty playlist \<open>view_playlist\<close> raises the \<open>PlaylistError\<close> and returns
  \<open>Playlist is empty\<close>. On any other playlist it returns, for the records in the order of
  the dictionary, the line of the title, the line of the artist, the line of the genre
  and an empty line. The playlist is returned as it was. The order of the dictionary is
  the order of insertion: the record a successful \<open>add_song\<close> inserts is listed after
  all the records that were there.
\<close>

theorem view_playlist_listing:
  "(d = [] \<longrightarrow>
      view_playlist_try d = (Inl (PlaylistError (lit ''Playlist is empty'')), d) \<and>
      view_playlist d = (lit ''Playlist is empty'', d)) \<and>
   (d \<noteq> [] \<longrightarrow>
      view_playlist d =
        (concat (map (\<lambda>e. lit ''Title: '' @ fst e @ lit ''\<newline>'' @
                           lit ''Artist: '' @ artist (snd e) @ lit ''\<newline>'' @
                           lit ''Genre: '' @ genre (snd e) @ lit ''\<newline>\<newline>'') d), d)) \<and>
   (strip title0 \<noteq> [] \<and> strip artist0 \<noteq> [] \<and> strip genre0 \<noteq> [] \<and>
    \<not> contains (strip title0) d \<longrightarrow>
      fst (view_playlist (snd (add_song d (PyStr title0) (PyStr artist0) (PyStr genre0)))) =
        concat (map block d) @
        block (strip title0, \<lparr>artist = strip artist0, genre = strip genre0\<rparr>))"
proof (intro conjI impI)
  assume "d = []"
  then show "view_playlist_try d = (Inl (PlaylistError (lit ''Playlist is empty'')), d)"
    by (simp add: view_playlist_try_def)
  from \<open>d = []\<close> show "view_playlist d = (lit ''Playlist is empty'', d)"
    by (simp add: view_playlist_def view_playlist_try_def)
next
  assume "d \<noteq> []"
  then have "view_playlist d = (concat (map block d), d)" by (rule view_playlist_nonempty)
  moreover have "block = (\<lambda>e. lit ''Title: '' @ fst e @ lit ''\<newline>'' @
                           lit ''Artist: '' @ artist (snd e) @ lit ''\<newline>'' @
                           lit ''Genre: '' @ genre (snd e) @ lit ''\<newline>\<newline>'')"
    by (rule ext) (simp only: block_def)
  ultimately show "view_playlist d =
        (concat (map (\<lambda>e. lit ''Title: '' @ fst e @ lit ''\<newline>'' @
                           lit ''Artist: '' @ artist (snd e) @ lit ''\<newline>'' @
                           lit ''Genre: '' @ genre (snd e) @ lit ''\<newline>\<newline>'') d), d)"
    by simp
next
  assume a: "strip title0 \<noteq> [] \<and> strip artist0 \<noteq> [] \<and> strip genre0 \<noteq> [] \<and>
    \<not> contains (strip title0) d"
  then have "snd (add_song d (PyStr title0) (PyStr artist0) (PyStr genre0)) =
     d @ [(strip title0, \<lparr>artist = strip artist0, genre = strip genre0\<rparr>)]"
    by (simp add: add_song_def Let_def setitem_new)
  then show "fst (view_playlist (snd (add_song d (PyStr title0) (PyStr artist0) (PyStr genre0)))) =
        concat (map block d) @
        block (strip title0, \<lparr>artist = strip artist0, genre = strip genre0\<rparr>)"
    by (simp add: view_playlist_nonempty)
qed

theorem view_playlist_listing_witness:
  "view_playlist [] = (lit ''Playlist is empty'', []) \<and>
   [(lit ''B'', \<lparr>artist = lit ''Y'', genre = lit ''Pop''\<rparr>),
    (lit ''A'', \<lparr>artist = lit ''X'', genre = lit ''Rock''\<rparr>)] \<noteq> [] \<and>
   view_playlist [(lit ''B'', \<lparr>artist = lit ''Y'', genre = lit ''Pop''\<rparr>),
                  (lit ''A'', \<lparr>artist = lit ''X'', genre = lit ''Rock''\<rparr>)] =
     (lit ''Title: B\<newline>Artist: Y\<newline>Genre: Pop\<newline>\<newline>Title: A\<newline>Artist: X\<newline>Genre: Rock\<newline>\<newline>'',
      [(lit ''B'', \<lparr>artist = lit ''Y'', genre = lit ''Pop''\<rparr>),
       (lit ''A'', \<lparr>artist = lit ''X'', genre = lit ''Rock''\<rparr>)]) \<and>
   (strip (lit ''C'') \<noteq> [] \<and> strip (lit ''Z'') \<noteq> [] \<and> strip (lit ''Jazz'') \<noteq> [] \<and>
    \<not> contains (strip (lit ''C''))
        [(lit ''B'', \<lparr>artist = lit ''Y'', genre = lit ''Pop''\<rparr>),
         (lit ''A'', \<lparr>artist = lit ''X'', genre = lit ''Rock''\<rparr>)]) \<and>
   fst (view_playlist (snd (add_song
       [(lit ''B'', \<lparr>artist = lit ''Y'', genre = lit ''Pop''\<rparr>),
        (lit ''A'', \<lparr>artist = lit ''X'', genre = lit ''Rock''\<rparr>)]
       (PyStr (lit ''C'')) (PyStr (lit ''Z'')) (PyStr (lit ''Jazz''))))) =
     lit ''Title: B\<newline>Artist: Y\<newline>Genre: Pop\<newline>\<newline>Title: A\<newline>Artist: X\<newline>Genre: Rock\<newline>\<newline>Title: C\<newline>Artist: Z\<newline>Genre: Jazz\<newline>\<newline>''"
proof -
  have h: "strip (lit ''C'') \<noteq> [] \<and> strip (lit ''Z'') \<noteq> [] \<and> strip (lit ''Jazz'') \<noteq> [] \<and>
    \<not> contains (strip (lit ''C''))
        [(lit ''B'', \<lparr>artist = lit ''Y'', genre = lit ''Pop''\<rparr>),
         (lit ''A'', \<lparr>artist = lit ''X'', genre = lit ''Rock''\<rparr>)]"
    by (simp add: ev)
  have n: "[(lit ''B'', \<lparr>artist = lit ''Y'', genre = lit ''Pop''\<rparr>),
    (lit ''A'', \<lparr>artist = lit ''X'', genre = lit ''Rock''\<rparr>)] \<noteq> []"
    by simp
  have e: "strip (lit ''C'') = lit ''C''" "strip (lit ''Z'') = lit ''Z''"
    "strip (lit ''Jazz'') = lit ''Jazz''"
    by (simp_all add: ev)
  note t1 = view_playlist_listing[where d = "[]"]
  note t2 = view_playlist_listing[where
      d = "[(lit ''B'', \<lparr>artist = lit ''Y'', genre = lit ''Pop''\<rparr>),
            (lit ''A'', \<lparr>artist = lit ''X'', genre = lit ''Rock''\<rparr>)]"
      and ?title0.0 = "lit ''C''" and ?artist0.0 = "lit ''Z''" and ?genre0.0 = "lit ''Jazz''"]
  from t1 have c1: "view_playlist [] = (lit ''Playlist is empty'', [])" by simp
  from t2 n have c2: "view_playlist [(lit ''B'', \<lparr>artist = lit ''Y'', genre = lit ''Pop''\<rparr>),
                  (lit ''A'', \<lparr>artist = lit ''X'', genre = lit ''Rock''\<rparr>)] =
     (lit ''Title: B\<newline>Artist: Y\<newline>Genre: Pop\<newline>\<newline>Title: A\<newline>Artist: X\<newline>Genre: Rock\<newline>\<newline>'',
      [(lit ''B'', \<lparr>artist = lit ''Y'', genre = lit ''Pop''\<rparr>),
       (lit ''A'', \<lparr>artist = lit ''X'', genre = lit ''Rock''\<rparr>)])"
    by (simp add: lit_def)
  from t2 h have c3: "fst (view_playlist (snd (add_song
       [(lit ''B'', \<lparr>artist = lit ''Y'', genre = lit ''Pop''\<rparr>),
        (lit ''A'', \<lparr>artist = lit ''X'', genre = lit ''Rock''\<rparr>)]
       (PyStr (lit ''C'')) (PyStr (lit ''Z'')) (PyStr (lit ''Jazz''))))) =
     lit ''Title: B\<newline>Artist: Y\<newline>Genre: Pop\<newline>\<newline>Title: A\<newline>Artist: X\<newline>Genre: Rock\<newline>\<newline>Title: C\<newline>Artist: Z\<newline>Genre: Jazz\<newline>\<newline>''"
    unfolding e by (simp add: block_def lit_def)
  show ?thesis by (rule conjI[OF c1 conjI[OF n conjI[OF c2 conjI[OF h c3]]]])
qed

text \<open>
  C9: on a playlist that is not empty, the returned text ends with the genre line of the
  last record followed by an empty line: its last two characters are newlines.
\<close>

theorem view_playlist_trailing_blank_line:
  assumes "d \<noteq> []"
  shows "fst (view_playlist d) =
           concat (map block (butlast d)) @
           lit ''Title: '' @ fst (last d) @ lit ''\<newline>'' @
           lit ''Artist: '' @ artist (snd (last d)) @ lit ''\<newline>'' @
           lit ''Genre: '' @ genre (snd (last d)) @ lit ''\<newline>\<newline>'' \<and>
         drop (length (fst (view_playlist d)) - 2) (fst (view_playlist d)) = lit ''\<newline>\<newline>''"
proof -
  define pre where "pre =
    concat (map block (butlast d)) @
    lit ''Title: '' @ fst (last d) @ lit ''\<newline>'' @
    lit ''Artist: '' @ artist (snd (last d)) @ lit ''\<newline>'' @
    lit ''Genre: '' @ genre (snd (last d))"
  have "concat (map block (butlast d @ [last d])) =
        concat (map block (butlast d)) @ block (last d)"
    by simp
  with assms have "concat (map block d) = concat (map block (butlast d)) @ block (last d)"
    by simp
  with assms have v: "fst (view_playlist d) = pre @ lit ''\<newline>\<newline>''"
    by (simp add: view_playlist_nonempty block_def pre_def)
  have l: "length (lit ''\<newline>\<newline>'') = 2" by (simp add: lit_def)
  have "drop (length (pre @ lit ''\<newline>\<newline>'') - 2) (pre @ lit ''\<newline>\<newline>'') = lit ''\<newline>\<newline>''"
    by (simp add: l)
  with v show ?thesis by (simp add: pre_def)
qed

theorem view_playlist_trailing_blank_line_witness:
  "[(lit ''B'', \<lparr>artist = lit ''Y'', genre = lit ''Pop''\<rparr>),
    (lit ''A'', \<lparr>artist = lit ''X'', genre = lit ''Rock''\<rparr>)] \<noteq> [] \<and>
   fst (view_playlist [(lit ''B'', \<lparr>artist = lit ''Y'', genre = lit ''Pop''\<rparr>),
                       (lit ''A'', \<lparr>artist = lit ''X'', genre = lit ''Rock''\<rparr>)]) =
     lit ''Title: B\<newline>Artist: Y\<newline>Genre: Pop\<newline>\<newline>'' @
     lit ''Title: A\<newline>Artist: X\<newline>'' @ lit ''Genre: Rock'' @ lit ''\<newline>\<newline>''"
proof -
  have n: "[(lit ''B'', \<lparr>artist = lit ''Y'', genre = lit ''Pop''\<rparr>),
    (lit ''A'', \<lparr>artist = lit ''X'', genre = lit ''Rock''\<rparr>)] \<noteq> []"
    by simp
  from view_playlist_trailing_blank_line[OF n] n show ?thesis
    by (simp add: block_def lit_def)
qed

section \<open>Properties of \<open>update_song\<close>\<close>

lemma getitem_set_artist:
  "getitem (set_artist k a d) k' =
     (if k' = k then map_option (\<lambda>v. v\<lparr>artist := a\<rparr>) (getitem d k) else getitem d k')"
  by (induction d) (auto simp: getitem_def)

lemma getitem_set_genre:
  "getitem (set_genre k g d) k' =
     (if k' = k then map_option (\<lambda>v. v\<lparr>genre := g\<rparr>) (getitem d k) else getitem d k')"
  by (induction d) (auto simp: getitem_def)

lemma contains_getitem: "contains k d \<longleftrightarrow> getitem d k \<noteq> None"
  by (simp add: contains_def getitem_def map_of_eq_None_iff)

lemma update_artist_str:
  "update_artist k (opt_arg a) d =
     Inr (case a of None \<Rightarrow> d
          | Some a0 \<Rightarrow> if strip a0 \<noteq> [] then set_artist k (strip a0) d else d)"
  by (cases a) (simp_all add: Let_def)

lemma update_genre_str:
  "update_genre k (opt_arg g) d =
     Inr (case g of None \<Rightarrow> d
          | Some g0 \<Rightarrow> if strip g0 \<noteq> [] then set_genre k (strip g0) d else d)"
  by (cases g) (simp_all add: Let_def)

text \<open>
  C6: when the stripped title is a key, \<open>update_song\<close> with a string title and each of
  artist and genre a string or left out raises nothing and returns
  \<open>Song '<title>' updated successfully!\<close>. The keys and their order are unchanged, every
  other key is looked up as before, and the record under the title has, field by field,
  the stripped new value when one was given and is not empty after stripping, and the
  old value otherwise.
\<close>

theorem update_song_fields:
  assumes "contains (strip title0) d"
  shows "update_song_try d (PyStr title0) (opt_arg artist') (opt_arg genre') =
           (Inr (lit ''Song '' @ apostrophe @ strip title0 @ lit ''' updated successfully!''),
            snd (update_song d (PyStr title0) (opt_arg artist') (opt_arg genre'))) \<and>
         fst (update_song d (PyStr title0) (opt_arg artist') (opt_arg genre')) =
           lit ''Song '' @ apostrophe @ strip title0 @ lit ''' updated successfully!'' \<and>
         map fst (snd (update_song d (PyStr title0) (opt_arg artist') (opt_arg genre'))) =
           map fst d \<and>
         (\<exists>old. getitem d (strip title0) = Some old \<and>
            getitem (snd (update_song d (PyStr title0) (opt_arg artist') (opt_arg genre')))
              (strip title0) =
            Some \<lparr>artist = (case artist' of None \<Rightarrow> artist old
                             | Some a \<Rightarrow> if strip a \<noteq> [] then strip a else artist old),
                  genre = (case genre' of None \<Rightarrow> genre old
                            | Some g \<Rightarrow> if strip g \<noteq> [] then strip g else genre old)\<rparr>) \<and>
         (\<forall>k. k \<noteq> strip title0 \<longrightarrow>
            getitem (snd (update_song d (PyStr title0) (opt_arg artist') (opt_arg genre'))) k =
            getitem d k)"
proof -
  from assms obtain old where old: "getitem d (strip title0) = Some old"
    by (auto simp: contains_getitem)
  show ?thesis
    using assms old
    by (cases artist'; cases genre')
      (auto simp: update_song_def Let_def update_artist_str update_genre_str
         keys_set_artist keys_set_genre getitem_set_artist getitem_set_genre)
qed

theorem update_song_fields_witness:
  "contains (strip (lit '' A '')) [(lit ''B'', \<lparr>artist = lit ''Y'', genre = lit ''Pop''\<rparr>),
      (lit ''A'', \<lparr>artist = lit ''X'', genre = lit ''Rock''\<rparr>)] \<and>
   update_song [(lit ''B'', \<lparr>artist = lit ''Y'', genre = lit ''Pop''\<rparr>),
      (lit ''A'', \<lparr>artist = lit ''X'', genre = lit ''Rock''\<rparr>)]
     (PyStr (lit '' A '')) (opt_arg (Some (lit '' Z ''))) (opt_arg (Some (lit ''  ''))) =
     (lit ''Song 'A' updated successfully!'',
      [(lit ''B'', \<lparr>artist = lit ''Y'', genre = lit ''Pop''\<rparr>),
       (lit ''A'', \<lparr>artist = lit ''Z'', genre = lit ''Rock''\<rparr>)]) \<and>
   update_song_try [(lit ''B'', \<lparr>artist = lit ''Y'', genre = lit ''Pop''\<rparr>),
      (lit ''A'', \<lparr>artist = lit ''X'', genre = lit ''Rock''\<rparr>)]
     (PyStr (lit '' A '')) (opt_arg (Some (lit '' Z ''))) (opt_arg (Some (lit ''  ''))) =
     (Inr (lit ''Song '' @ apostrophe @ strip (lit '' A '') @ lit ''' updated successfully!''),
      snd (update_song [(lit ''B'', \<lparr>artist = lit ''Y'', genre = lit ''Pop''\<rparr>),
      (lit ''A'', \<lparr>artist = lit ''X'', genre = lit ''Rock''\<rparr>)]
     (PyStr (lit '' A '')) (opt_arg (Some (lit '' Z ''))) (opt_arg (Some (lit ''  '')))))"
proof -
  have h: "contains (strip (lit '' A '')) [(lit ''B'', \<lparr>artist = lit ''Y'', genre = lit ''Pop''\<rparr>),
      (lit ''A'', \<lparr>artist = lit ''X'', genre = lit ''Rock''\<rparr>)]"
    by (simp add: ev)
  have v: "update_song [(lit ''B'', \<lparr>artist = lit ''Y'', genre = lit ''Pop''\<rparr>),
      (lit ''A'', \<lparr>artist = lit ''X'', genre = lit ''Rock''\<rparr>)]
     (PyStr (lit '' A '')) (opt_arg (Some (lit '' Z ''))) (opt_arg (Some (lit ''  ''))) =
     (lit ''Song 'A' updated successfully!'',
      [(lit ''B'', \<lparr>artist = lit ''Y'', genre = lit ''Pop''\<rparr>),
       (lit ''A'', \<lparr>artist = lit ''Z'', genre = lit ''Rock''\<rparr>)])"
    by (simp add: ev)
  note t = update_song_fields[OF h, of "Some (lit '' Z '')" "Some (lit ''  '')"]
  from t have c: "update_song_try [(lit ''B'', \<lparr>artist = lit ''Y'', genre = lit ''Pop''\<rparr>),
      (lit ''A'', \<lparr>artist = lit ''X'', genre = lit ''Rock''\<rparr>)]
     (PyStr (lit '' A '')) (opt_arg (Some (lit '' Z ''))) (opt_arg (Some (lit ''  ''))) =
     (Inr (lit ''Song '' @ apostrophe @ strip (lit '' A '') @ lit ''' updated successfully!''),
      snd (update_song [(lit ''B'', \<lparr>artist = lit ''Y'', genre = lit ''Pop''\<rparr>),
      (lit ''A'', \<lparr>artist = lit ''X'', genre = lit ''Rock''\<rparr>)]
     (PyStr (lit '' A '')) (opt_arg (Some (lit '' Z ''))) (opt_arg (Some (lit ''  '')))))"
    by (rule conjunct1)
  show ?thesis by (rule conjI[OF h conjI[OF v c]])
qed

text \<open>
  C7: when the stripped title is not a key, \<open>update_song\<close> raises the \<open>PlaylistError\<close>,
  returns \<open>Song '<title>' not found in playlist!\<close> and leaves the playlist as it was,
  whatever is passed for the artist and the genre.
\<close>

theorem update_song_not_found:
  assumes "\<not> contains (strip title0) d"
  shows "update_song_try d (PyStr title0) artist0 genre0 =
           (Inl (PlaylistError
                  (lit ''Song '' @ apostrophe @ strip title0 @ lit ''' not found in playlist!'')),
            d) \<and>
         update_song d (PyStr title0) artist0 genre0 =
           (lit ''Song '' @ apostrophe @ strip title0 @ lit ''' not found in playlist!'', d)"
  using assms by (simp add: update_song_def Let_def)

theorem update_song_not_found_witness:
  "\<not> contains (strip (lit ''C'')) [(lit ''A'', \<lparr>artist = lit ''X'', genre = lit ''Rock''\<rparr>)] \<and>
   update_song [(lit ''A'', \<lparr>artist = lit ''X'', genre = lit ''Rock''\<rparr>)]
     (PyStr (lit ''C'')) (PyStr (lit ''Z'')) PyNone =
     (lit ''Song 'C' not found in playlist!'',
      [(lit ''A'', \<lparr>artist = lit ''X'', genre = lit ''Rock''\<rparr>)])"
proof -
  have h: "\<not> contains (strip (lit ''C''))
             [(lit ''A'', \<lparr>artist = lit ''X'', genre = lit ''Rock''\<rparr>)]"
    by (simp add: ev)
  have e: "lit ''Song '' @ apostrophe @ strip (lit ''C'') @ lit ''' not found in playlist!'' =
           lit ''Song 'C' not found in playlist!''"
    by (simp add: ev)
  from update_song_not_found[OF h, of "PyStr (lit ''Z'')" PyNone] h show ?thesis
    unfolding e by simp
qed

section \<open>Properties of \<open>delete_song\<close>\<close>

lemma delitem_filter:
  "distinct (map fst d) \<Longrightarrow> delitem k d = filter (\<lambda>e. fst e \<noteq> k) d"
proof (induction d)
  case Nil
  then show ?case by simp
next
  case (Cons e d)
  obtain k' v' where e: "e = (k', v')" by (cases e)
  show ?case
  proof (cases "k' = k")
    case True
    with Cons.prems e have "\<forall>x \<in> set d. fst x \<noteq> k" by auto
    then have "filter (\<lambda>e. fst e \<noteq> k) d = d" by (simp add: filter_id_conv)
    with True e show ?thesis by simp
  next
    case False
    with Cons e show ?thesis by simp
  qed
qed

lemma length_delitem: "contains k d \<Longrightarrow> length (delitem k d) + 1 = length d"
  by (induction d) (force simp: contains_def image_iff)+

lemma getitem_delitem: "k' \<noteq> k \<Longrightarrow> getitem (delitem k d) k' = getitem d k'"
  by (induction d) (auto simp: getitem_def)

lemma not_contains_delitem: "distinct (map fst d) \<Longrightarrow> \<not> contains k (delitem k d)"
  by (simp add: contains_def keys_delitem del: set_map)

text \<open>
  C8: with a string argument, when the stripped title is a key \<open>delete_song\<close> returns
  \<open>Song '<title>' deleted successfully!\<close> and the playlist without the entry of that
  title: one entry less, the others in their order and looked up as before, the title no
  longer a key; and the same call once more returns
  \<open>Song '<title>' not found in playlist!\<close> and changes nothing. When the stripped title
  is not a key, \<open>delete_song\<close> raises the \<open>PlaylistError\<close>, returns that message and
  leaves the playlist as it was. The keys of a dictionary are pairwise different.
\<close>

theorem delete_song_removes:
  assumes "distinct (map fst d)"
  shows "(contains (strip title0) d \<longrightarrow>
            delete_song d (PyStr title0) =
              (lit ''Song '' @ apostrophe @ strip title0 @ lit ''' deleted successfully!'',
               filter (\<lambda>e. fst e \<noteq> strip title0) d) \<and>
            length (snd (delete_song d (PyStr title0))) + 1 = length d \<and>
            \<not> contains (strip title0) (snd (delete_song d (PyStr title0))) \<and>
            (\<forall>k. k \<noteq> strip title0 \<longrightarrow>
               getitem (snd (delete_song d (PyStr title0))) k = getitem d k) \<and>
            delete_song (snd (delete_song d (PyStr title0))) (PyStr title0) =
              (lit ''Song '' @ apostrophe @ strip title0 @ lit ''' not found in playlist!'',
               snd (delete_song d (PyStr title0)))) \<and>
         (\<not> contains (strip title0) d \<longrightarrow>
            delete_song_try d (PyStr title0) =
              (Inl (PlaylistError
                     (lit ''Song '' @ apostrophe @ strip title0 @
                      lit ''' not found in playlist!'')), d) \<and>
            delete_song d (PyStr title0) =
              (lit ''Song '' @ apostrophe @ strip title0 @ lit ''' not found in playlist!'', d))"
proof (intro conjI impI)
  assume c: "contains (strip title0) d"
  then have s: "snd (delete_song d (PyStr title0)) = delitem (strip title0) d"
    by (simp add: delete_song_def Let_def)
  from c assms show "delete_song d (PyStr title0) =
      (lit ''Song '' @ apostrophe @ strip title0 @ lit ''' deleted successfully!'',
       filter (\<lambda>e. fst e \<noteq> strip title0) d)"
    by (simp add: delete_song_def Let_def delitem_filter)
  from c show "length (snd (delete_song d (PyStr title0))) + 1 = length d"
    unfolding s by (rule length_delitem)
  from assms show n: "\<not> contains (strip title0) (snd (delete_song d (PyStr title0)))"
    unfolding s by (rule not_contains_delitem)
  show "\<forall>k. k \<noteq> strip title0 \<longrightarrow>
          getitem (snd (delete_song d (PyStr title0))) k = getitem d k"
    unfolding s by (simp add: getitem_delitem)
  from n show "delete_song (snd (delete_song d (PyStr title0))) (PyStr title0) =
      (lit ''Song '' @ apostrophe @ strip title0 @ lit ''' not found in playlist!'',
       snd (delete_song d (PyStr title0)))"
    by (simp add: delete_song_def[of "snd _"] Let_def)
next
  assume "\<not> contains (strip title0) d"
  then show "delete_song_try d (PyStr title0) =
      (Inl (PlaylistError
             (lit ''Song '' @ apostrophe @ strip title0 @ lit ''' not found in playlist!'')), d)"
    by (simp add: Let_def)
next
  assume "\<not> contains (strip title0) d"
  then show "delete_song d (PyStr title0) =
      (lit ''Song '' @ apostrophe @ strip title0 @ lit ''' not found in playlist!'', d)"
    by (simp add: delete_song_def Let_def)
qed

theorem delete_song_removes_witness:
  "distinct (map fst [(lit ''B'', \<lparr>artist = lit ''Y'', genre = lit ''Pop''\<rparr>),
      (lit ''A'', \<lparr>artist = lit ''X'', genre = lit ''Rock''\<rparr>)]) \<and>
   contains (strip (lit ''B '')) [(lit ''B'', \<lparr>artist = lit ''Y'', genre = lit ''Pop''\<rparr>),
      (lit ''A'', \<lparr>artist = lit ''X'', genre = lit ''Rock''\<rparr>)] \<and>
   delete_song [(lit ''B'', \<lparr>artist = lit ''Y'', genre = lit ''Pop''\<rparr>),
      (lit ''A'', \<lparr>artist = lit ''X'', genre = lit ''Rock''\<rparr>)] (PyStr (lit ''B '')) =
     (lit ''Song 'B' deleted successfully!'',
      [(lit ''A'', \<lparr>artist = lit ''X'', genre = lit ''Rock''\<rparr>)]) \<and>
   delete_song [(lit ''A'', \<lparr>artist = lit ''X'', genre = lit ''Rock''\<rparr>)] (PyStr (lit ''B '')) =
     (lit ''Song 'B' not found in playlist!'',
      [(lit ''A'', \<lparr>artist = lit ''X'', genre = lit ''Rock''\<rparr>)])"
proof -
  have h1: "distinct (map fst [(lit ''B'', \<lparr>artist = lit ''Y'', genre = lit ''Pop''\<rparr>),
      (lit ''A'', \<lparr>artist = lit ''X'', genre = lit ''Rock''\<rparr>)])"
    by (simp add: ev)
  have h2: "contains (strip (lit ''B '')) [(lit ''B'', \<lparr>artist = lit ''Y'', genre = lit ''Pop''\<rparr>),
      (lit ''A'', \<lparr>artist = lit ''X'', genre = lit ''Rock''\<rparr>)]"
    by (simp add: ev)
  have e: "strip (lit ''B '') = lit ''B''"
    "lit ''Song '' @ apostrophe @ lit ''B'' @ lit ''' deleted successfully!'' =
     lit ''Song 'B' deleted successfully!''"
    "lit ''Song '' @ apostrophe @ lit ''B'' @ lit ''' not found in playlist!'' =
     lit ''Song 'B' not found in playlist!''"
    "filter (\<lambda>e. fst e \<noteq> lit ''B'') [(lit ''B'', \<lparr>artist = lit ''Y'', genre = lit ''Pop''\<rparr>),
      (lit ''A'', \<lparr>artist = lit ''X'', genre = lit ''Rock''\<rparr>)] =
     [(lit ''A'', \<lparr>artist = lit ''X'', genre = lit ''Rock''\<rparr>)]"
    by (simp_all add: ev)
  from delete_song_removes[OF h1, of "lit ''B ''"] h2
  have c1: "delete_song [(lit ''B'', \<lparr>artist = lit ''Y'', genre = lit ''Pop''\<rparr>),
      (lit ''A'', \<lparr>artist = lit ''X'', genre = lit ''Rock''\<rparr>)] (PyStr (lit ''B '')) =
     (lit ''Song 'B' deleted successfully!'',
      [(lit ''A'', \<lparr>artist = lit ''X'', genre = lit ''Rock''\<rparr>)])"
    unfolding e by simp
  from delete_song_removes[OF h1, of "lit ''B ''"] h2
  have c2: "delete_song [(lit ''A'', \<lparr>artist = lit ''X'', genre = lit ''Rock''\<rparr>)] (PyStr (lit ''B '')) =
     (lit ''Song 'B' not found in playlist!'',
      [(lit ''A'', \<lparr>artist = lit ''X'', genre = lit ''Rock''\<rparr>)])"
    unfolding e c1 by simp
  show ?thesis by (rule conjI[OF h1 conjI[OF h2 conjI[OF c1 c2]]])
qed

section \<open>Deleting a song and adding it again\<close>

text \<open>
  C10: after a successful \<open>delete_song\<close> of a title and a successful \<open>add_song\<close> of the
  same title, the title was a key before, and the playlist is the old one without that
  entry followed by the new entry. The title is the last key, and the text
  \<open>view_playlist\<close> returns is the three lines and the empty line of each remaining
  record, in their order, followed by the title line, the artist line, the genre line and
  the empty line of the record added again. When the title was not the last key before,
  the order of the keys is not the one before the deletion.
\<close>

theorem delete_then_add_last:
  assumes "delete_song_try d (PyStr title0) = (Inr m1, d1)"
    and "add_song_try d1 (PyStr title0) (PyStr artist0) (PyStr genre0) = (Inr m2, d2)"
  shows "contains (strip title0) d \<and>
         d2 = delitem (strip title0) d @
              [(strip title0, \<lparr>artist = strip artist0, genre = strip genre0\<rparr>)] \<and>
         last d2 = (strip title0, \<lparr>artist = strip artist0, genre = strip genre0\<rparr>) \<and>
         map fst d2 = remove1 (strip title0) (map fst d) @ [strip title0] \<and>
         view_playlist d2 =
           (concat (map (\<lambda>e. lit ''Title: '' @ fst e @ lit ''\<newline>'' @
                              lit ''Artist: '' @ artist (snd e) @ lit ''\<newline>'' @
                              lit ''Genre: '' @ genre (snd e) @ lit ''\<newline>\<newline>'')
                        (delitem (strip title0) d)) @
            lit ''Title: '' @ strip title0 @ lit ''\<newline>'' @
            lit ''Artist: '' @ strip artist0 @ lit ''\<newline>'' @
            lit ''Genre: '' @ strip genre0 @ lit ''\<newline>\<newline>'', d2) \<and>
         (fst (last d) \<noteq> strip title0 \<longrightarrow> map fst d2 \<noteq> map fst d)"
proof -
  from assms(1) have c: "contains (strip title0) d" and d1: "d1 = delitem (strip title0) d"
    by (auto simp: Let_def split: if_splits)
  from assms(2) have n: "\<not> contains (strip title0) d1"
    and "d2 = setitem (strip title0) \<lparr>artist = strip artist0, genre = strip genre0\<rparr> d1"
    by (auto simp: Let_def split: if_splits)
  then have d2: "d2 = delitem (strip title0) d @
      [(strip title0, \<lparr>artist = strip artist0, genre = strip genre0\<rparr>)]"
    by (simp add: setitem_new d1)
  have l: "last d2 = (strip title0, \<lparr>artist = strip artist0, genre = strip genre0\<rparr>)"
    by (simp add: d2)
  have k: "map fst d2 = remove1 (strip title0) (map fst d) @ [strip title0]"
    by (simp add: d2 keys_delitem)
  have b: "block = (\<lambda>e. lit ''Title: '' @ fst e @ lit ''\<newline>'' @
                         lit ''Artist: '' @ artist (snd e) @ lit ''\<newline>'' @
                         lit ''Genre: '' @ genre (snd e) @ lit ''\<newline>\<newline>'')"
    by (rule ext) (simp only: block_def)
  have "view_playlist d2 =
      (concat (map block (delitem (strip title0) d)) @
       block (strip title0, \<lparr>artist = strip artist0, genre = strip genre0\<rparr>), d2)"
    by (simp add: d2 view_playlist_nonempty)
  then have v: "view_playlist d2 =
      (concat (map (\<lambda>e. lit ''Title: '' @ fst e @ lit ''\<newline>'' @
                         lit ''Artist: '' @ artist (snd e) @ lit ''\<newline>'' @
                         lit ''Genre: '' @ genre (snd e) @ lit ''\<newline>\<newline>'')
                   (delitem (strip title0) d)) @
       lit ''Title: '' @ strip title0 @ lit ''\<newline>'' @
       lit ''Artist: '' @ strip artist0 @ lit ''\<newline>'' @
       lit ''Genre: '' @ strip genre0 @ lit ''\<newline>\<newline>'', d2)"
    unfolding b by simp
  have p: "fst (last d) \<noteq> strip title0 \<longrightarrow> map fst d2 \<noteq> map fst d"
  proof (intro impI notI)
    assume a: "fst (last d) \<noteq> strip title0" and e: "map fst d2 = map fst d"
    from c have "d \<noteq> []" by (auto simp: contains_def)
    then have "last (map fst d) = fst (last d)" by (simp add: last_map)
    moreover from k have "last (map fst d2) = strip title0" by simp
    ultimately show False using a e by simp
  qed
  show ?thesis by (rule conjI[OF c conjI[OF d2 conjI[OF l conjI[OF k conjI[OF v p]]]]])
qed

theorem delete_then_add_last_witness:
  "delete_song_try [(lit ''A'', \<lparr>artist = lit ''X'', genre = lit ''Rock''\<rparr>),
      (lit ''B'', \<lparr>artist = lit ''Y'', genre = lit ''Pop''\<rparr>)] (PyStr (lit ''A'')) =
     (Inr (lit ''Song 'A' deleted successfully!''),
      [(lit ''B'', \<lparr>artist = lit ''Y'', genre = lit ''Pop''\<rparr>)]) \<and>
   add_song_try [(lit ''B'', \<lparr>artist = lit ''Y'', genre = lit ''Pop''\<rparr>)]
     (PyStr (lit ''A'')) (PyStr (lit ''Z'')) (PyStr (lit ''Jazz'')) =
     (Inr (lit ''Song 'A' added successfully!''),
      [(lit ''B'', \<lparr>artist = lit ''Y'', genre = lit ''Pop''\<rparr>),
       (lit ''A'', \<lparr>artist = lit ''Z'', genre = lit ''Jazz''\<rparr>)]) \<and>
   last [(lit ''B'', \<lparr>artist = lit ''Y'', genre = lit ''Pop''\<rparr>),
         (lit ''A'', \<lparr>artist = lit ''Z'', genre = lit ''Jazz''\<rparr>)] =
     (strip (lit ''A''), \<lparr>artist = strip (lit ''Z''), genre = strip (lit ''Jazz'')\<rparr>) \<and>
   view_playlist [(lit ''B'', \<lparr>artist = lit ''Y'', genre = lit ''Pop''\<rparr>),
                  (lit ''A'', \<lparr>artist = lit ''Z'', genre = lit ''Jazz''\<rparr>)] =
     (lit ''Title: B\<newline>Artist: Y\<newline>Genre: Pop\<newline>\<newline>Title: A\<newline>Artist: Z\<newline>Genre: Jazz\<newline>\<newline>'',
      [(lit ''B'', \<lparr>artist = lit ''Y'', genre = lit ''Pop''\<rparr>),
       (lit ''A'', \<lparr>artist = lit ''Z'', genre = lit ''Jazz''\<rparr>)]) \<and>
   fst (last [(lit ''A'', \<lparr>artist = lit ''X'', genre = lit ''Rock''\<rparr>),
      (lit ''B'', \<lparr>artist = lit ''Y'', genre = lit ''Pop''\<rparr>)]) \<noteq> strip (lit ''A'') \<and>
   map fst [(lit ''B'', \<lparr>artist = lit ''Y'', genre = lit ''Pop''\<rparr>),
            (lit ''A'', \<lparr>artist = lit ''Z'', genre = lit ''Jazz''\<rparr>)] \<noteq>
   map fst [(lit ''A'', \<lparr>artist = lit ''X'', genre = lit ''Rock''\<rparr>),
            (lit ''B'', \<lparr>artist = lit ''Y'', genre = lit ''Pop''\<rparr>)]"
proof -
  have h1: "delete_song_try [(lit ''A'', \<lparr>artist = lit ''X'', genre = lit ''Rock''\<rparr>),
      (lit ''B'', \<lparr>artist = lit ''Y'', genre = lit ''Pop''\<rparr>)] (PyStr (lit ''A'')) =
     (Inr (lit ''Song 'A' deleted successfully!''),
      [(lit ''B'', \<lparr>artist = lit ''Y'', genre = lit ''Pop''\<rparr>)])"
    by (simp add: ev)
  have h2: "add_song_try [(lit ''B'', \<lparr>artist = lit ''Y'', genre = lit ''Pop''\<rparr>)]
     (PyStr (lit ''A'')) (PyStr (lit ''Z'')) (PyStr (lit ''Jazz'')) =
     (Inr (lit ''Song 'A' added successfully!''),
      [(lit ''B'', \<lparr>artist = lit ''Y'', genre = lit ''Pop''\<rparr>),
       (lit ''A'', \<lparr>artist = lit ''Z'', genre = lit ''Jazz''\<rparr>)])"
    by (simp add: ev)
  have h3: "fst (last [(lit ''A'', \<lparr>artist = lit ''X'', genre = lit ''Rock''\<rparr>),
      (lit ''B'', \<lparr>artist = lit ''Y'', genre = lit ''Pop''\<rparr>)]) \<noteq> strip (lit ''A'')"
    by (simp add: ev)
  have e: "strip (lit ''A'') = lit ''A''" "strip (lit ''Z'') = lit ''Z''"
    "strip (lit ''Jazz'') = lit ''Jazz''"
    "delitem (lit ''A'') [(lit ''A'', \<lparr>artist = lit ''X'', genre = lit ''Rock''\<rparr>),
      (lit ''B'', \<lparr>artist = lit ''Y'', genre = lit ''Pop''\<rparr>)] =
     [(lit ''B'', \<lparr>artist = lit ''Y'', genre = lit ''Pop''\<rparr>)]"
    by (simp_all add: ev)
  note t = delete_then_add_last[OF h1 h2]
  from t have c1: "last [(lit ''B'', \<lparr>artist = lit ''Y'', genre = lit ''Pop''\<rparr>),
         (lit ''A'', \<lparr>artist = lit ''Z'', genre = lit ''Jazz''\<rparr>)] =
     (strip (lit ''A''), \<lparr>artist = strip (lit ''Z''), genre = strip (lit ''Jazz'')\<rparr>)"
    by (elim conjE)
  from t have "view_playlist [(lit ''B'', \<lparr>artist = lit ''Y'', genre = lit ''Pop''\<rparr>),
                  (lit ''A'', \<lparr>artist = lit ''Z'', genre = lit ''Jazz''\<rparr>)] =
     (concat (map (\<lambda>e. lit ''Title: '' @ fst e @ lit ''\<newline>'' @
                        lit ''Artist: '' @ artist (snd e) @ lit ''\<newline>'' @
                        lit ''Genre: '' @ genre (snd e) @ lit ''\<newline>\<newline>'')
                  (delitem (strip (lit ''A''))
                     [(lit ''A'', \<lparr>artist = lit ''X'', genre = lit ''Rock''\<rparr>),
                      (lit ''B'', \<lparr>artist = lit ''Y'', genre = lit ''Pop''\<rparr>)])) @
      lit ''Title: '' @ strip (lit ''A'') @ lit ''\<newline>'' @
      lit ''Artist: '' @ strip (lit ''Z'') @ lit ''\<newline>'' @
      lit ''Genre: '' @ strip (lit ''Jazz'') @ lit ''\<newline>\<newline>'',
      [(lit ''B'', \<lparr>artist = lit ''Y'', genre = lit ''Pop''\<rparr>),
       (lit ''A'', \<lparr>artist = lit ''Z'', genre = lit ''Jazz''\<rparr>)])"
    by (elim conjE)
  then have c3: "view_playlist [(lit ''B'', \<lparr>artist = lit ''Y'', genre = lit ''Pop''\<rparr>),
                  (lit ''A'', \<lparr>artist = lit ''Z'', genre = lit ''Jazz''\<rparr>)] =
     (lit ''Title: B\<newline>Artist: Y\<newline>Genre: Pop\<newline>\<newline>Title: A\<newline>Artist: Z\<newline>Genre: Jazz\<newline>\<newline>'',
      [(lit ''B'', \<lparr>artist = lit ''Y'', genre = lit ''Pop''\<rparr>),
       (lit ''A'', \<lparr>artist = lit ''Z'', genre = lit ''Jazz''\<rparr>)])"
    unfolding e by (simp add: lit_def)
  from t h3 have c2: "map fst [(lit ''B'', \<lparr>artist = lit ''Y'', genre = lit ''Pop''\<rparr>),
            (lit ''A'', \<lparr>artist = lit ''Z'', genre = lit ''Jazz''\<rparr>)] \<noteq>
       map fst [(lit ''A'', \<lparr>artist = lit ''X'', genre = lit ''Rock''\<rparr>),
            (lit ''B'', \<lparr>artist = lit ''Y'', genre = lit ''Pop''\<rparr>)]"
    by (elim conjE impE)
  show ?thesis by (rule conjI[OF h1 conjI[OF h2 conjI[OF c1 conjI[OF c3 conjI[OF h3 c2]]]]])
qed

end
